theory Spec2Isabelle
  imports Complex_Main "HOL-Library.AList"
begin

section \<open>Python values, exceptions and string helpers\<close>

text \<open>
  The program is \<^verbatim>\<open>src/OnMapPlotter.py\<close>. Python strings are modelled as
  \<^typ>\<open>string\<close>. The text handed to \<^verbatim>\<open>readTxtTable\<close> is a list of code points
  below 256 (one \<^typ>\<open>char\<close> per code point); the Cyrillic literals of the plot manager
  are kept as their UTF-8 bytes, since the manager only concatenates and stores them.
\<close>

datatype error =
    IndexError
  | KeyError string
  | TypeError
  | ValueError string
  | OSError string

definition newline :: char where
  "newline = CHR 0x0A"

definition tab :: char where
  "tab = CHR 0x09"

definition space :: char where
  "space = CHR 0x20"

text \<open>\<^verbatim>\<open>str.isalpha\<close> on one character, for the code points 0..255.\<close>

definition isalpha :: "char \<Rightarrow> bool" where
  "isalpha c =
     (let n = (of_char c :: nat)
      in (65 \<le> n \<and> n \<le> 90) \<or> (97 \<le> n \<and> n \<le> 122) \<or> n = 170 \<or> n = 181 \<or> n = 186
         \<or> (192 \<le> n \<and> n \<le> 214) \<or> (216 \<le> n \<and> n \<le> 246) \<or> (248 \<le> n \<and> n \<le> 255))"

definition isdigit :: "char \<Rightarrow> bool" where
  "isdigit c = (c \<in> set ''0123456789'')"

text \<open>\<^verbatim>\<open>s.lstrip(c)\<close>, \<^verbatim>\<open>s.rstrip(c)\<close> and \<^verbatim>\<open>s.strip(c)\<close> for a one-character argument.\<close>

definition lstrip :: "char \<Rightarrow> string \<Rightarrow> string" where
  "lstrip c s = dropWhile (\<lambda>x. x = c) s"

definition rstrip :: "char \<Rightarrow> string \<Rightarrow> string" where
  "rstrip c s = rev (dropWhile (\<lambda>x. x = c) (rev s))"

definition strip :: "char \<Rightarrow> string \<Rightarrow> string" where
  "strip c s = rstrip c (lstrip c s)"

subsection \<open>The built-in \<^verbatim>\<open>float\<close> on the tokens the reader builds\<close>

text \<open>
  A token handed to \<^verbatim>\<open>float\<close> by the reader is a non-empty string over the characters
  \<^verbatim>\<open>-.0123456789\<close>. Python accepts it exactly when, after one optional leading minus,
  it is a digit string with at most one decimal point and at least one digit; every other
  token raises \<^verbatim>\<open>ValueError\<close>. The value is modelled as the rational number the decimal
  denotes (Python rounds it to the nearest double and keeps the sign of a negative zero;
  the tokens \<^verbatim>\<open>1.0\<close>, \<^verbatim>\<open>2.0\<close>, \<^verbatim>\<open>3.0\<close>, \<^verbatim>\<open>4.0\<close> are exact).
\<close>

definition digits_val :: "string \<Rightarrow> nat" where
  "digits_val ds = foldl (\<lambda>n c. 10 * n + (of_char c - 48)) 0 ds"

definition py_float :: "string \<Rightarrow> error + rat" where
  "py_float s =
     (let neg = (case s of [] \<Rightarrow> False | c # _ \<Rightarrow> c = CHR ''-'');
          body = (if neg then tl s else s);
          ip = takeWhile isdigit body;
          rest = dropWhile isdigit body;
          fp = (case rest of
                  [] \<Rightarrow> Some []
                | c # r \<Rightarrow> if c = CHR ''.'' \<and> list_all isdigit r then Some r else None)
      in case fp of
           None \<Rightarrow> Inl (ValueError s)
         | Some f \<Rightarrow>
             if ip = [] \<and> f = [] then Inl (ValueError s)
             else Inr ((if neg then - 1 else 1) * of_nat (digits_val (ip @ f)) / 10 ^ length f))"

section \<open>The table reader\<close>

text \<open>
  \<^verbatim>\<open>file.readlines()\<close>: the text (newlines already translated to \<^verbatim>\<open>\n\<close> by the text
  wrapper) cut after every newline, each line keeping its terminator; a last line without
  terminator is returned as it is, and no line is empty.
\<close>

fun readlines :: "string \<Rightarrow> string list" where
  "readlines [] = []"
| "readlines (c # cs) =
     (if c = newline then [c] # readlines cs
      else (case readlines cs of
              [] \<Rightarrow> [[c]]
            | l # ls \<Rightarrow> (c # l) # ls))"

text \<open>A row holds numbers and at most one trailing string.\<close>

datatype cell = Num rat | Str string

type_synonym row = "cell list"

text \<open>
  The inner loop \<^verbatim>\<open>for i in range(len(line))\<close>. The first argument is \<^verbatim>\<open>line[i:]\<close>,
  \<open>cell\<close> is the token being collected and \<open>cells\<close> the row built so far. Returning
  at the end of the line is the loop running out; the alphabetic branch is the \<^verbatim>\<open>break\<close>.
\<close>

fun scan_line :: "string \<Rightarrow> string \<Rightarrow> cell list \<Rightarrow> error + cell list" where
  "scan_line [] cell cells = Inr cells"
| "scan_line (c # rest) cell cells =
     (if c \<in> set [space, tab] then
        (if cell \<noteq> [] then
           (case py_float cell of
              Inl e \<Rightarrow> Inl e
            | Inr v \<Rightarrow> scan_line rest [] (cells @ [Num v]))
         else scan_line rest [] cells)
      else if c \<in> set ''-.1234567890'' then scan_line rest (cell @ [c]) cells
      else if isalpha c then Inr (cells @ [Str (rstrip newline (strip space (c # rest)))])
      else scan_line rest cell cells)"

text \<open>
  The outer loop over the lines, with the variables \<open>rows\<close> and \<open>cells\<close> of the source.
  \<^verbatim>\<open>line[0]\<close> raises \<^verbatim>\<open>IndexError\<close> on an empty line (which \<open>readlines\<close> never
  returns).
\<close>

fun read_rows :: "string list \<Rightarrow> row list \<Rightarrow> cell list \<Rightarrow> error + row list" where
  "read_rows [] rows cells = Inr rows"
| "read_rows (line # later) rows cells =
     (case line of
        [] \<Rightarrow> Inl IndexError
      | c0 # _ \<Rightarrow>
          if c0 = CHR ''#'' \<or> lstrip space line = [newline] then read_rows later rows cells
          else (case scan_line line [] cells of
                  Inl e \<Rightarrow> Inl e
                | Inr cells' \<Rightarrow> read_rows later (rows @ [cells']) []))"

definition readTxtTable :: "string \<Rightarrow> error + row list" where
  "readTxtTable file = read_rows (readlines file) [] []"

section \<open>Dictionaries, objects and the drawing surface\<close>

text \<open>
  Settings values are Python integers or strings. A settings dictionary is a map from
  field name to value: the program never iterates over one. Dictionaries are mutable
  objects that can be shared, so a settings dictionary lives in a heap and is named by
  its address; \<open>next_ref\<close> is the next unused address.
\<close>

datatype pyval = IntV int | StrV string

type_synonym dict = "string \<rightharpoonup> pyval"

type_synonym ref = nat

definition getitem :: "dict \<Rightarrow> string \<Rightarrow> error + pyval" where
  "getitem d k = (case d k of None \<Rightarrow> Inl (KeyError k) | Some v \<Rightarrow> Inr v)"

text \<open>\<^verbatim>\<open>v > 0\<close>: comparing a string with an integer raises \<^verbatim>\<open>TypeError\<close>.\<close>

definition greater_zero :: "pyval \<Rightarrow> error + bool" where
  "greater_zero v = (case v of IntV n \<Rightarrow> Inr (0 < n) | StrV _ \<Rightarrow> Inl TypeError)"

definition bind_err :: "error + 'a \<Rightarrow> ('a \<Rightarrow> error + 'b) \<Rightarrow> error + 'b" where
  "bind_err r f = (case r of Inl e \<Rightarrow> Inl e | Inr v \<Rightarrow> f v)"

text \<open>\<^verbatim>\<open>str(n)\<close> for an integer.\<close>

fun str_nat :: "nat \<Rightarrow> string" where
  "str_nat n =
     (if n < 10 then [''0123456789'' ! n]
      else str_nat (n div 10) @ [''0123456789'' ! (n mod 10)])"

declare str_nat.simps [simp del]

definition str_int :: "int \<Rightarrow> string" where
  "str_int i = (if i < 0 then CHR ''-'' # str_nat (nat (- i)) else str_nat (nat i))"

text \<open>The Cyrillic literals, as UTF-8 bytes.\<close>

definition label_prefix :: string where
  "label_prefix =
     [CHR 0xD0, CHR 0x93, CHR 0xD1, CHR 0x80, CHR 0xD0, CHR 0xB0, CHR 0xD1, CHR 0x84,
      CHR 0xD0, CHR 0xB8, CHR 0xD0, CHR 0xBA] @ '':''"

definition latitude_label :: string where
  "latitude_label =
     [CHR 0xD0, CHR 0xA8, CHR 0xD0, CHR 0xB8, CHR 0xD1, CHR 0x80, CHR 0xD0, CHR 0xBE,
      CHR 0xD1, CHR 0x82, CHR 0xD0, CHR 0xB0]"

definition longitude_label :: string where
  "longitude_label =
     [CHR 0xD0, CHR 0x94, CHR 0xD0, CHR 0xBE, CHR 0xD0, CHR 0xBB, CHR 0xD0, CHR 0xB3,
      CHR 0xD0, CHR 0xBE, CHR 0xD1, CHR 0x82, CHR 0xD0, CHR 0xB0]"

definition default_map :: string where
  "default_map = ''maps'' @ [CHR 0x5C] @ ''ortophotoplan_earth_80.jpg''"

text \<open>
  The lines dictionary keeps insertion order (the redraw iterates over it), so it is an
  association list with the keys of a dictionary: \<open>has_key\<close> is \<^verbatim>\<open>k in d\<close>,
  \<open>lines_getitem\<close> is \<^verbatim>\<open>d[k]\<close>, \<open>lines_pop\<close> is \<^verbatim>\<open>d.pop(k)\<close> and
  \<^const>\<open>AList.update\<close> is \<^verbatim>\<open>d[k] = v\<close>. The point lists of a line are never mutated by
  the program and are kept by value.
\<close>

type_synonym series = "cell list"

record line =
  data :: "series \<times> series"
  settings :: ref

definition has_key :: "(int \<times> 'v) list \<Rightarrow> int \<Rightarrow> bool" where
  "has_key d k = (k \<in> set (map fst d))"

definition lines_getitem :: "(int \<times> 'v) list \<Rightarrow> int \<Rightarrow> error + 'v" where
  "lines_getitem d k = (case map_of d k of None \<Rightarrow> Inl (KeyError (str_int k)) | Some v \<Rightarrow> Inr v)"

definition lines_pop :: "(int \<times> 'v) list \<Rightarrow> int \<Rightarrow> error + ('v \<times> (int \<times> 'v) list)" where
  "lines_pop d k =
     (case map_of d k of
        None \<Rightarrow> Inl (KeyError (str_int k))
      | Some v \<Rightarrow> Inr (v, AList.delete k d))"

text \<open>
  What the plotting library is asked to draw: the arguments of each \<^verbatim>\<open>axes.plot\<close> and
  \<^verbatim>\<open>axes.imshow\<close> call, the axis labels and limits, the grid and the legend entries.
  The library is taken to accept every call it is given.
\<close>

record plot_call =
  plot_x :: series
  plot_y :: series
  linewidth :: pyval
  color :: pyval
  linestyle :: pyval
  marker :: "string option"
  markersize :: pyval
  markerfacecolor :: pyval
  label :: string

type_synonym image = string

record imshow_call =
  pixels :: image
  zorder :: int
  extent :: "int \<times> int \<times> int \<times> int"
  interpolation :: string

record axes_state =
  plotted :: "plot_call list"
  images :: "imshow_call list"
  xlabel :: string
  ylabel :: string
  xlim :: "int \<times> int"
  ylim :: "int \<times> int"
  grid :: bool
  legend :: "string list"

text \<open>A new or cleared axes object (\<^verbatim>\<open>figure.add_subplot(111)\<close>, \<^verbatim>\<open>axes.clear()\<close>).\<close>

definition cleared_axes :: axes_state where
  "cleared_axes =
     \<lparr>plotted = [], images = [], xlabel = [], ylabel = [], xlim = (0, 1), ylim = (0, 1),
      grid = False, legend = []\<rparr>"

section \<open>The plot manager\<close>

text \<open>
  The fields of \<^verbatim>\<open>PlotManager\<close>, followed by the two parts of the surroundings its
  methods act on: the heap of dictionary objects and the error dialogs shown so far.
\<close>

record state =
  axes :: axes_state
  lines :: "(int \<times> line) list"
  background_image :: string
  current_id :: int
  default_settings :: ref
  heap :: "ref \<Rightarrow> dict"
  next_ref :: ref
  errors_shown :: "error list"

text \<open>Creating a dictionary object with the given contents.\<close>

definition new_dict :: "dict \<Rightarrow> state \<Rightarrow> ref \<times> state" where
  "new_dict d s =
     (next_ref s, s\<lparr>heap := (heap s)(next_ref s := d), next_ref := Suc (next_ref s)\<rparr>)"

text \<open>
  The dictionary literal of \<^verbatim>\<open>__init__\<close>; its argument is the value of
  \<^verbatim>\<open>self.current_id\<close> when the literal is evaluated.
\<close>

definition settings_literal :: "int \<Rightarrow> dict" where
  "settings_literal cur =
     [''line_width'' \<mapsto> IntV 2,
      ''line_color'' \<mapsto> StrV ''blue'',
      ''line_style'' \<mapsto> StrV '':'',
      ''marker_size'' \<mapsto> IntV 0,
      ''marker_color'' \<mapsto> StrV ''red'',
      ''label'' \<mapsto> StrV (label_prefix @ str_int cur)]"

text \<open>\<^verbatim>\<open>PlotManager.__init__\<close> in a program that holds no other dictionary yet.\<close>

definition init :: state where
  "init =
     (let cur = 0
      in \<lparr>axes = cleared_axes\<lparr>xlabel := latitude_label, ylabel := longitude_label, grid := True\<rparr>,
          lines = [],
          background_image = default_map,
          current_id = cur,
          default_settings = 0,
          heap = (\<lambda>_. Map.empty)(0 := settings_literal cur),
          next_ref = 1,
          errors_shown = []\<rparr>)"

text \<open>
  \<^verbatim>\<open>add_line\<close>: with \<^verbatim>\<open>settings=None\<close> a copy of the default dictionary is created;
  a dictionary passed by the caller is stored as the same object.
\<close>

definition add_line :: "state \<Rightarrow> series \<Rightarrow> series \<Rightarrow> ref option \<Rightarrow> int \<times> state" where
  "add_line s x_data y_data settings_arg =
     (let (settings_ref, s1) =
            (case settings_arg of
               None \<Rightarrow> new_dict (heap s (default_settings s)) s
             | Some r \<Rightarrow> (r, s));
          s2 = s1\<lparr>current_id := current_id s1 + 1\<rparr>;
          line_id = current_id s2;
          s3 = (if \<not> has_key (lines s2) line_id
                then s2\<lparr>lines := AList.update line_id
                                    \<lparr>data = (x_data, y_data), settings = settings_ref\<rparr> (lines s2)\<rparr>
                else s2)
      in (line_id, s3))"

text \<open>A method returns the exception it raised or its value, and the state it leaves.\<close>

definition remove_line :: "state \<Rightarrow> int \<Rightarrow> (error + bool) \<times> state" where
  "remove_line s line_id =
     (if has_key (lines s) line_id then
        (case lines_pop (lines s) line_id of
           Inl e \<Rightarrow> (Inl e, s)
         | Inr (_, rest) \<Rightarrow> (Inr True, s\<lparr>lines := rest\<rparr>))
      else (Inr False, s))"

definition update_line_settings :: "state \<Rightarrow> int \<Rightarrow> dict \<Rightarrow> (error + bool) \<times> state" where
  "update_line_settings s line_id new_settings =
     (if has_key (lines s) line_id then
        (case lines_getitem (lines s) line_id of
           Inl e \<Rightarrow> (Inl e, s)
         | Inr l \<Rightarrow>
             (Inr True,
              s\<lparr>heap := (heap s)(settings l := heap s (settings l) ++ new_settings)\<rparr>))
      else (Inr False, s))"

text \<open>
  The keyword arguments of the \<^verbatim>\<open>axes.plot\<close> call of \<^verbatim>\<open>redraw_plot\<close>, evaluated in
  the order of the source; a missing settings key raises \<^verbatim>\<open>KeyError\<close>.
\<close>

definition plot_args :: "dict \<Rightarrow> int \<Rightarrow> line \<Rightarrow> error + plot_call" where
  "plot_args st line_id line_data =
     bind_err (getitem st ''line_width'') (\<lambda>lw.
     bind_err (getitem st ''line_color'') (\<lambda>lc.
     bind_err (getitem st ''line_style'') (\<lambda>ls.
     bind_err (getitem st ''marker_size'') (\<lambda>ms0.
     bind_err (greater_zero ms0) (\<lambda>show_marker.
     bind_err (getitem st ''marker_size'') (\<lambda>ms.
     bind_err (getitem st ''marker_color'') (\<lambda>mc.
       Inr \<lparr>plot_x = fst (data line_data), plot_y = snd (data line_data),
            linewidth = lw, color = lc, linestyle = ls,
            marker = (if show_marker then Some ''o'' else None),
            markersize = ms, markerfacecolor = mc,
            label = label_prefix @ str_int line_id\<rparr>)))))))"

text \<open>The loop of \<^verbatim>\<open>redraw_plot\<close>; an exception leaves the lines drawn before it.\<close>

fun plot_lines :: "(ref \<Rightarrow> dict) \<Rightarrow> (int \<times> line) list \<Rightarrow> axes_state \<Rightarrow> error option \<times> axes_state" where
  "plot_lines h [] ax = (None, ax)"
| "plot_lines h ((line_id, line_data) # later) ax =
     (case plot_args (h (settings line_data)) line_id line_data of
        Inl e \<Rightarrow> (Some e, ax)
      | Inr call \<Rightarrow> plot_lines h later (ax\<lparr>plotted := plotted ax @ [call]\<rparr>))"

definition redraw_plot :: "state \<Rightarrow> (error + unit) \<times> state" where
  "redraw_plot s =
     (case plot_lines (heap s) (lines s) cleared_axes of
        (Some e, ax) \<Rightarrow> (Inl e, s\<lparr>axes := ax\<rparr>)
      | (None, ax) \<Rightarrow>
          (Inr (),
           s\<lparr>axes := ax\<lparr>xlabel := latitude_label, ylabel := longitude_label,
                        xlim := (- 180, 180), ylim := (- 80, 80),
                        legend := map label (plotted ax)\<rparr>\<rparr>))"

text \<open>
  \<^verbatim>\<open>redraw_map\<close>. \<open>imread\<close> is the image loader: it returns the image or the
  exception it raises. The \<^verbatim>\<open>except\<close> clause shows the exception in a dialog.
\<close>

definition redraw_map :: "(string \<Rightarrow> error + image) \<Rightarrow> state \<Rightarrow> string option \<Rightarrow> (error + unit) \<times> state" where
  "redraw_map imread s path =
     (let s1 = (case path of None \<Rightarrow> s | Some p \<Rightarrow> s\<lparr>background_image := p\<rparr>)
      in case imread (background_image s1) of
           Inr img \<Rightarrow>
             (Inr (),
              s1\<lparr>axes := (axes s1)\<lparr>images := images (axes s1) @
                   [\<lparr>pixels = img, zorder = 0, extent = (- 180, 180, - 80, 80),
                     interpolation = ''nearest''\<rparr>]\<rparr>\<rparr>)
         | Inl e \<Rightarrow> (Inr (), s1\<lparr>errors_shown := errors_shown s1 @ [e]\<rparr>))"

section \<open>Sessions\<close>

text \<open>
  A session is a sequence of calls on one manager. \<open>NewDict\<close> is the caller creating
  a dictionary (to pass to \<^verbatim>\<open>add_line\<close>); the other commands are the methods.
\<close>

datatype command =
    AddLine series series "ref option"
  | RemoveLine int
  | UpdateLineSettings int dict
  | RedrawPlot
  | RedrawMap "string option"
  | NewDict dict

datatype outcome =
    LineId int
  | Flag bool
  | Created ref
  | Done
  | Raised error

definition flag_outcome :: "error + bool \<Rightarrow> outcome" where
  "flag_outcome r = (case r of Inl e \<Rightarrow> Raised e | Inr b \<Rightarrow> Flag b)"

definition unit_outcome :: "error + unit \<Rightarrow> outcome" where
  "unit_outcome r = (case r of Inl e \<Rightarrow> Raised e | Inr _ \<Rightarrow> Done)"

fun step :: "(string \<Rightarrow> error + image) \<Rightarrow> state \<Rightarrow> command \<Rightarrow> outcome \<times> state" where
  "step imread s (AddLine x y a) = (case add_line s x y a of (i, s') \<Rightarrow> (LineId i, s'))"
| "step imread s (RemoveLine i) = (case remove_line s i of (r, s') \<Rightarrow> (flag_outcome r, s'))"
| "step imread s (UpdateLineSettings i d) =
     (case update_line_settings s i d of (r, s') \<Rightarrow> (flag_outcome r, s'))"
| "step imread s RedrawPlot = (case redraw_plot s of (r, s') \<Rightarrow> (unit_outcome r, s'))"
| "step imread s (RedrawMap p) = (case redraw_map imread s p of (r, s') \<Rightarrow> (unit_outcome r, s'))"
| "step imread s (NewDict d) = (case new_dict d s of (r, s') \<Rightarrow> (Created r, s'))"

fun run :: "(string \<Rightarrow> error + image) \<Rightarrow> state \<Rightarrow> command list \<Rightarrow> outcome list \<times> state" where
  "run imread s [] = ([], s)"
| "run imread s (c # cs) =
     (case step imread s c of
        (r, s1) \<Rightarrow> (case run imread s1 cs of (rs, s2) \<Rightarrow> (r # rs, s2)))"

text \<open>The ids returned by the \<^verbatim>\<open>add_line\<close> calls of a session, in call order.\<close>

fun returned_ids :: "outcome list \<Rightarrow> int list" where
  "returned_ids [] = []"
| "returned_ids (LineId i # rs) = i # returned_ids rs"
| "returned_ids (_ # rs) = returned_ids rs"

text \<open>The state a session starting from a new manager ends in.\<close>

definition session_state :: "(string \<Rightarrow> error + image) \<Rightarrow> command list \<Rightarrow> state" where
  "session_state imread cmds = snd (run imread init cmds)"

text \<open>The keys of the lines dictionary, and the bound the counter puts on them.\<close>

definition line_ids :: "state \<Rightarrow> int list" where
  "line_ids s = map fst (lines s)"

definition ids_bounded :: "state \<Rightarrow> bool" where
  "ids_bounded s = list_all (\<lambda>i. i \<le> current_id s) (line_ids s)"

text \<open>An image loader for which every path fails.\<close>

definition load_fails :: "string \<Rightarrow> error + image" where
  "load_fails p = Inl (OSError p)"

text \<open>
  \<^verbatim>\<open>self.lines[i]['settings'].get(k)\<close>: the value a line's settings dictionary holds
  for a field, if the line and the field exist.
\<close>

definition line_setting :: "state \<Rightarrow> int \<Rightarrow> string \<Rightarrow> pyval option" where
  "line_setting s i k = (case map_of (lines s) i of None \<Rightarrow> None | Some l \<Rightarrow> heap s (settings l) k)"

section \<open>Concrete inputs\<close>

text \<open>The example text of the specification, and a line made of one tab.\<close>

definition spec_example :: string where
  "spec_example =
     ''1.0 2.0'' @ [newline] @ ''# comment'' @ [newline] @ [newline] @ ''3.0 4.0 extra'' @ [newline]"

definition tab_line :: string where
  "tab_line = [tab, newline]"

text \<open>Sessions and argument dictionaries used as concrete inputs below.\<close>

definition shared_state :: state where
  "shared_state =
     session_state load_fails
       [NewDict (settings_literal 7), AddLine [] [] (Some 1), AddLine [] [] (Some 1)]"

definition width_five :: dict where
  "width_five = [''line_width'' \<mapsto> IntV 5]"

definition name_orbit :: dict where
  "name_orbit = [''label'' \<mapsto> StrV ''Orbit A'']"

definition named_state :: state where
  "named_state =
     session_state load_fails [AddLine [] [] None, UpdateLineSettings 1 name_orbit]"

definition shared_of_two :: state where
  "shared_of_two = session_state load_fails [AddLine [] [] None, AddLine [] [] None]"

definition zorder_three :: dict where
  "zorder_three = [''zorder'' \<mapsto> IntV 3]"

definition one_line_state :: state where
  "one_line_state = session_state load_fails [AddLine [] [] None]"

definition add_then_remove :: "command list" where
  "add_then_remove = [AddLine [] [] None, RemoveLine 1]"

text \<open>
  An image loader that finds the default map only, and the calls the application makes:
  at start-up (\<^verbatim>\<open>update_plot\<close>), then \<^verbatim>\<open>load_map_image\<close> on a missing file, which is
  \<^verbatim>\<open>redraw_map(path)\<close> followed by \<^verbatim>\<open>update_plot\<close>.
\<close>

definition load_default_only :: "string \<Rightarrow> error + image" where
  "load_default_only p = (if p = default_map then Inr ''default map pixels'' else Inl (OSError p))"

definition startup_session :: "command list" where
  "startup_session = [RedrawPlot, RedrawMap None]"

definition bad_map_session :: "command list" where
  "bad_map_session = startup_session @ [RedrawMap (Some ''missing.png'')]"

definition bad_map_redrawn_session :: "command list" where
  "bad_map_redrawn_session = bad_map_session @ [RedrawPlot, RedrawMap None]"

section \<open>The id counter\<close>

lemma add_line_fst: "fst (add_line s x y a) = current_id s + 1"
  by (simp add: add_line_def new_dict_def Let_def split: option.split prod.split)

lemma add_line_current_id: "current_id (snd (add_line s x y a)) = current_id s + 1"
  by (simp add: add_line_def new_dict_def Let_def split: option.split prod.split)

lemma remove_line_current_id: "current_id (snd (remove_line s i)) = current_id s"
  by (simp add: remove_line_def split: sum.split prod.split)

lemma update_line_settings_current_id: "current_id (snd (update_line_settings s i d)) = current_id s"
  by (simp add: update_line_settings_def split: sum.split)

lemma redraw_plot_current_id: "current_id (snd (redraw_plot s)) = current_id s"
  by (simp add: redraw_plot_def split: prod.split option.split)

lemma redraw_map_current_id: "current_id (snd (redraw_map imread s p)) = current_id s"
  by (simp add: redraw_map_def Let_def split: sum.split option.split)

lemma step_unfold:
  "step imread s (AddLine x y a) = (LineId (fst (add_line s x y a)), snd (add_line s x y a))"
  "step imread s (RemoveLine i) = (flag_outcome (fst (remove_line s i)), snd (remove_line s i))"
  "step imread s (UpdateLineSettings i d) =
     (flag_outcome (fst (update_line_settings s i d)), snd (update_line_settings s i d))"
  "step imread s RedrawPlot = (unit_outcome (fst (redraw_plot s)), snd (redraw_plot s))"
  "step imread s (RedrawMap p) =
     (unit_outcome (fst (redraw_map imread s p)), snd (redraw_map imread s p))"
  "step imread s (NewDict d) = (Created (fst (new_dict d s)), snd (new_dict d s))"
  by (simp_all add: case_prod_beta)

lemma run_unfold:
  "run imread s (c # cs) =
     (fst (step imread s c) # fst (run imread (snd (step imread s c)) cs),
      snd (run imread (snd (step imread s c)) cs))"
  by (simp add: case_prod_beta)

declare step.simps [simp del]

declare run.simps(2) [simp del]

lemma outcome_not_LineId:
  "flag_outcome r \<noteq> LineId i" "unit_outcome u \<noteq> LineId i"
  by (simp_all add: flag_outcome_def unit_outcome_def split: sum.split)

lemma step_current_id:
  "current_id (snd (step imread s c)) =
     (case c of AddLine _ _ _ \<Rightarrow> current_id s + 1 | _ \<Rightarrow> current_id s)"
  by (cases c)
     (simp_all add: step_unfold add_line_current_id remove_line_current_id
        update_line_settings_current_id redraw_plot_current_id redraw_map_current_id
        new_dict_def)

lemma step_current_id_mono: "current_id s \<le> current_id (snd (step imread s c))"
  by (simp add: step_current_id split: command.split)

lemma step_LineId:
  "fst (step imread s c) = LineId i \<Longrightarrow> i = current_id s + 1 \<and> current_id (snd (step imread s c)) = i"
  by (cases c)
     (auto simp: step_unfold add_line_fst add_line_current_id outcome_not_LineId)

lemma run_current_id_mono: "current_id s \<le> current_id (snd (run imread s cs))"
proof (induction cs arbitrary: s)
  case Nil
  then show ?case by simp
next
  case (Cons c cs)
  have "current_id s \<le> current_id (snd (step imread s c))" by (rule step_current_id_mono)
  also have "\<dots> \<le> current_id (snd (run imread (snd (step imread s c)) cs))" by (rule Cons.IH)
  finally show ?case by (simp add: run_unfold)
qed

lemma run_ids_above:
  "i \<in> set (returned_ids (fst (run imread s cs))) \<Longrightarrow> current_id s < i"
proof (induction cs arbitrary: s)
  case Nil
  then show ?case by simp
next
  case (Cons c cs)
  let ?r = "fst (step imread s c)" and ?s1 = "snd (step imread s c)"
  let ?rs = "fst (run imread ?s1 cs)"
  have mono: "current_id s \<le> current_id ?s1" by (rule step_current_id_mono)
  from Cons.prems have mem: "i \<in> set (returned_ids (?r # ?rs))" by (simp add: run_unfold)
  have tail: "i \<in> set (returned_ids ?rs) \<Longrightarrow> current_id s < i"
    using Cons.IH [of ?s1] mono by fastforce
  show ?case
  proof (cases ?r)
    case (LineId j)
    then have "j = current_id s + 1" using step_LineId [of imread s c j] by simp
    with mem LineId tail show ?thesis by auto
  qed (use mem tail in auto)
qed

lemma run_ids_sorted: "sorted_wrt (<) (returned_ids (fst (run imread s cs)))"
proof (induction cs arbitrary: s)
  case Nil
  then show ?case by simp
next
  case (Cons c cs)
  let ?r = "fst (step imread s c)" and ?s1 = "snd (step imread s c)"
  let ?rs = "fst (run imread ?s1 cs)"
  have srt: "sorted_wrt (<) (returned_ids ?rs)" by (rule Cons.IH)
  show ?case
  proof (cases ?r)
    case (LineId j)
    then have "current_id ?s1 = j" using step_LineId [of imread s c j] by simp
    then have "\<forall>i \<in> set (returned_ids ?rs). j < i"
      using run_ids_above [of _ imread ?s1 cs] by auto
    with srt LineId show ?thesis by (simp add: run_unfold)
  qed (use srt in \<open>auto simp: run_unfold\<close>)
qed

lemma str_int_small: "str_int 0 = ''0''" "str_int 1 = ''1''" "str_int 2 = ''2''"
  by (simp_all add: str_int_def str_nat.simps)

text \<open>
  C1: in every session starting from a new manager, whatever calls are mixed in (removals
  included), the ids returned by the successive \<^verbatim>\<open>add_line\<close> calls are strictly
  increasing, so none is returned twice; and no call ever lowers the counter.
\<close>

theorem add_line_ids_strictly_increasing:
  "sorted_wrt (<) (returned_ids (fst (run imread init cmds)))
   \<and> distinct (returned_ids (fst (run imread init cmds)))
   \<and> current_id s \<le> current_id (snd (step imread s c))"
  using run_ids_sorted [of imread init cmds] step_current_id_mono [of s imread c]
  by (simp add: strict_sorted_iff)

theorem add_line_ids_strictly_increasing_witness:
  "returned_ids (fst (run load_fails init
      [AddLine [] [] None, AddLine [] [] None, RemoveLine 1, RemoveLine 2, AddLine [] [] None]))
     = [1, 2, 3]
   \<and> sorted_wrt (<) (returned_ids (fst (run load_fails init
      [AddLine [] [] None, AddLine [] [] None, RemoveLine 1, RemoveLine 2, AddLine [] [] None])))"
  using add_line_ids_strictly_increasing [of load_fails
      "[AddLine [] [] None, AddLine [] [] None, RemoveLine 1, RemoveLine 2, AddLine [] [] None]" init "RemoveLine 1"]
  by (simp add: run.simps step.simps init_def add_line_def new_dict_def has_key_def
        remove_line_def lines_pop_def flag_outcome_def Let_def)

section \<open>The registry invariant\<close>

lemma has_key_map_of: "has_key d k \<longleftrightarrow> map_of d k \<noteq> None"
  by (simp add: has_key_def map_of_eq_None_iff)

lemma update_fresh_key: "k \<notin> set (map fst al) \<Longrightarrow> AList.update k v al = al @ [(k, v)]"
  by (induction al) auto

lemma length_delete_distinct:
  "distinct (map fst al) \<Longrightarrow> k \<in> set (map fst al) \<Longrightarrow> length (AList.delete k al) + 1 = length al"
proof (induction al)
  case Nil
  then show ?case by simp
next
  case (Cons e al)
  show ?case
  proof (cases "fst e = k")
    case True
    with Cons.prems have "k \<notin> fst ` set al" by auto
    then have "AList.delete k al = al" by (rule delete_id)
    with True show ?thesis by (cases e) simp
  next
    case False
    with Cons show ?thesis by (cases e) auto
  qed
qed

lemma add_line_lines:
  "lines (snd (add_line s x y a)) =
     (if has_key (lines s) (current_id s + 1) then lines s
      else lines s @ [(current_id s + 1,
             \<lparr>data = (x, y), settings = (case a of None \<Rightarrow> next_ref s | Some r \<Rightarrow> r)\<rparr>)])"
  by (cases a) (simp_all add: add_line_def new_dict_def Let_def has_key_def update_fresh_key)

lemma remove_line_unfold:
  "remove_line s i =
     (if has_key (lines s) i then (Inr True, s\<lparr>lines := AList.delete i (lines s)\<rparr>)
      else (Inr False, s))"
  by (auto simp: remove_line_def lines_pop_def has_key_map_of)

lemma update_line_settings_lines: "lines (snd (update_line_settings s i d)) = lines s"
  by (simp add: update_line_settings_def split: sum.split)

lemma redraw_plot_lines: "lines (snd (redraw_plot s)) = lines s"
  by (simp add: redraw_plot_def split: prod.split option.split)

lemma redraw_map_lines: "lines (snd (redraw_map imread s p)) = lines s"
  by (simp add: redraw_map_def Let_def split: sum.split option.split)

lemma step_ids_bounded: "ids_bounded s \<Longrightarrow> ids_bounded (snd (step imread s c))"
proof (cases c)
  case (AddLine x y a)
  assume "ids_bounded s"
  then show ?thesis
    unfolding AddLine ids_bounded_def line_ids_def
    by (auto simp: step_unfold add_line_lines add_line_current_id list_all_iff)
next
  case (RemoveLine i)
  assume "ids_bounded s"
  then show ?thesis
    unfolding RemoveLine ids_bounded_def line_ids_def
    by (auto simp: step_unfold remove_line_unfold list_all_iff AList.delete_eq)
next
  case (UpdateLineSettings i d)
  assume "ids_bounded s"
  then show ?thesis
    unfolding UpdateLineSettings ids_bounded_def line_ids_def
    by (simp add: step_unfold update_line_settings_lines update_line_settings_current_id)
next
  case RedrawPlot
  assume "ids_bounded s"
  then show ?thesis
    unfolding RedrawPlot ids_bounded_def line_ids_def
    by (simp add: step_unfold redraw_plot_lines redraw_plot_current_id)
next
  case (RedrawMap p)
  assume "ids_bounded s"
  then show ?thesis
    unfolding RedrawMap ids_bounded_def line_ids_def
    by (simp add: step_unfold redraw_map_lines redraw_map_current_id)
next
  case (NewDict d)
  assume "ids_bounded s"
  then show ?thesis
    unfolding NewDict ids_bounded_def line_ids_def
    by (simp add: step_unfold new_dict_def)
qed

lemma run_ids_bounded: "ids_bounded s \<Longrightarrow> ids_bounded (snd (run imread s cs))"
  by (induction cs arbitrary: s) (simp_all add: run_unfold step_ids_bounded)

lemma init_ids_bounded: "ids_bounded init"
  by (simp add: ids_bounded_def line_ids_def init_def)

lemma session_ids_bounded: "ids_bounded (session_state imread cmds)"
  unfolding session_state_def by (rule run_ids_bounded [OF init_ids_bounded])

lemma ids_bounded_next_free: "ids_bounded s \<Longrightarrow> \<not> has_key (lines s) (current_id s + 1)"
  by (auto simp: ids_bounded_def line_ids_def has_key_def list_all_iff)

lemma step_distinct: "distinct (line_ids s) \<Longrightarrow> distinct (line_ids (snd (step imread s c)))"
  by (cases c)
     (auto simp: line_ids_def step_unfold add_line_lines remove_line_unfold has_key_def
        update_line_settings_lines redraw_plot_lines redraw_map_lines new_dict_def
        distinct_delete)

lemma run_distinct: "distinct (line_ids s) \<Longrightarrow> distinct (line_ids (snd (run imread s cs)))"
  by (induction cs arbitrary: s) (simp_all add: run_unfold step_distinct)

lemma session_distinct: "distinct (line_ids (session_state imread cmds))"
  unfolding session_state_def by (rule run_distinct) (simp add: line_ids_def init_def)

lemmas session_eval =
  session_state_def run.simps step.simps init_def add_line_def new_dict_def has_key_def
  remove_line_def lines_pop_def update_line_settings_def lines_getitem_def
  flag_outcome_def unit_outcome_def Let_def

text \<open>
  C9: in every state a session reaches from a new manager, every id in the lines
  dictionary is at most \<open>current_id\<close>; so the id \<open>current_id + 1\<close> that \<^verbatim>\<open>add_line\<close>
  takes next is not a key, the membership test of \<^verbatim>\<open>add_line\<close> lets the insertion
  through, the call returns that id, and the registry grows by exactly the new entry.
  Every operation keeps the bound.
\<close>

theorem add_line_always_inserts:
  "ids_bounded (session_state imread cmds)
   \<and> \<not> has_key (lines (session_state imread cmds)) (current_id (session_state imread cmds) + 1)
   \<and> fst (add_line (session_state imread cmds) x y a) = current_id (session_state imread cmds) + 1
   \<and> lines (snd (add_line (session_state imread cmds) x y a)) =
       lines (session_state imread cmds) @
         [(current_id (session_state imread cmds) + 1,
           \<lparr>data = (x, y),
            settings = (case a of None \<Rightarrow> next_ref (session_state imread cmds) | Some r \<Rightarrow> r)\<rparr>)]
   \<and> length (lines (snd (add_line (session_state imread cmds) x y a))) =
       length (lines (session_state imread cmds)) + 1
   \<and> (ids_bounded s \<longrightarrow> ids_bounded (snd (step imread s c)))"
  using session_ids_bounded [of imread cmds]
    ids_bounded_next_free [OF session_ids_bounded, of imread cmds]
    step_ids_bounded [of s imread c]
  by (simp add: add_line_lines add_line_fst)

theorem add_line_always_inserts_witness:
  "ids_bounded (session_state load_fails add_then_remove)
   \<and> current_id (session_state load_fails add_then_remove) = 1
   \<and> lines (session_state load_fails add_then_remove) = []
   \<and> fst (add_line (session_state load_fails add_then_remove) [] [] None) = 2
   \<and> length (lines (snd (add_line (session_state load_fails add_then_remove) [] [] None))) = 1
   \<and> ids_bounded init
   \<and> ids_bounded (snd (step load_fails init (AddLine [] [] None)))"
proof -
  have start: "ids_bounded init"
    by (simp add: ids_bounded_def line_ids_def init_def)
  have cur: "current_id (session_state load_fails add_then_remove) = 1"
    and ls: "lines (session_state load_fails add_then_remove) = []"
    by (simp_all add: add_then_remove_def session_eval)
  from start cur ls
    add_line_always_inserts [of load_fails add_then_remove "[]" "[]" None init "AddLine [] [] None"]
  show ?thesis by simp
qed

section \<open>Removing a line\<close>

lemma shared_state_eq:
  "lines shared_state = [(1, \<lparr>data = ([], []), settings = Suc 0\<rparr>), (2, \<lparr>data = ([], []), settings = Suc 0\<rparr>)]"
  "heap shared_state (Suc 0) = settings_literal 7"
  "current_id shared_state = 2"
  by (simp_all add: shared_state_def session_eval)

lemma one_line_state_eq:
  "lines one_line_state = [(1, \<lparr>data = ([], []), settings = Suc 0\<rparr>)]"
  "heap one_line_state (Suc 0) = settings_literal 0"
  "heap one_line_state 0 = settings_literal 0"
  "current_id one_line_state = 1"
  "next_ref one_line_state = 2"
  by (simp_all add: one_line_state_def session_eval)

lemma named_state_eq:
  "lines named_state = [(1, \<lparr>data = ([], []), settings = Suc 0\<rparr>)]"
  "heap named_state (Suc 0) = settings_literal 0 ++ name_orbit"
  by (simp_all add: named_state_def session_eval)

text \<open>
  C7: on a lines dictionary (its keys are distinct), \<^verbatim>\<open>remove_line\<close> with a present id
  returns \<open>True\<close> and deletes the entry: the registry is one entry shorter and a lookup
  of the id finds nothing. With an absent id it returns \<open>False\<close> and the state is the
  one before. In no case does it raise.
\<close>

theorem remove_line_deletes_or_reports:
  "(distinct (line_ids s) \<and> has_key (lines s) i \<longrightarrow>
      remove_line s i = (Inr True, s\<lparr>lines := AList.delete i (lines s)\<rparr>)
      \<and> length (lines (snd (remove_line s i))) + 1 = length (lines s)
      \<and> map_of (lines (snd (remove_line s i))) i = None
      \<and> \<not> has_key (lines (snd (remove_line s i))) i)
   \<and> (\<not> has_key (lines s) i \<longrightarrow> remove_line s i = (Inr False, s))
   \<and> fst (remove_line s i) \<noteq> Inl e"
proof (intro conjI impI)
  assume a: "distinct (line_ids s) \<and> has_key (lines s) i"
  then show "remove_line s i = (Inr True, s\<lparr>lines := AList.delete i (lines s)\<rparr>)"
    by (simp add: remove_line_unfold)
  from a show "length (lines (snd (remove_line s i))) + 1 = length (lines s)"
    using length_delete_distinct [of "lines s" i]
    by (simp add: remove_line_unfold line_ids_def has_key_def)
  from a show "map_of (lines (snd (remove_line s i))) i = None"
    by (simp add: remove_line_unfold delete_conv')
  from a show "\<not> has_key (lines (snd (remove_line s i))) i"
    using delete_notin_dom [of i "lines s"] by (simp add: remove_line_unfold has_key_def)
next
  assume "\<not> has_key (lines s) i"
  then show "remove_line s i = (Inr False, s)" by (simp add: remove_line_unfold)
next
  show "fst (remove_line s i) \<noteq> Inl e" by (simp add: remove_line_unfold)
qed

theorem remove_line_deletes_or_reports_witness:
  "distinct (line_ids one_line_state) \<and> has_key (lines one_line_state) 1
   \<and> remove_line one_line_state 1 =
       (Inr True, one_line_state\<lparr>lines := AList.delete 1 (lines one_line_state)\<rparr>)
   \<and> length (lines (snd (remove_line one_line_state 1))) + 1 = length (lines one_line_state)
   \<and> map_of (lines (snd (remove_line one_line_state 1))) 1 = None
   \<and> \<not> has_key (lines one_line_state) 5
   \<and> remove_line one_line_state 5 = (Inr False, one_line_state)"
proof -
  have present: "distinct (line_ids one_line_state) \<and> has_key (lines one_line_state) 1"
    by (simp add: one_line_state_eq line_ids_def has_key_def)
  have absent: "\<not> has_key (lines one_line_state) 5"
    by (simp add: one_line_state_eq has_key_def)
  from present absent
    remove_line_deletes_or_reports [of one_line_state 1 IndexError]
    remove_line_deletes_or_reports [of one_line_state 5 IndexError]
  show ?thesis by blast
qed

section \<open>Updating settings\<close>

text \<open>
  C6 (as amended): with the id present, \<^verbatim>\<open>update_line_settings\<close> returns \<open>True\<close>,
  gives every field listed in the argument its new value in that line's settings, leaves
  the unlisted fields of that line as they were, leaves the registry entries (ids, points,
  settings objects) as they were, and leaves the settings of every other line whose
  settings dictionary is a different object as they were. With the id absent it returns
  \<open>False\<close> and the state is the one before.
\<close>

theorem update_line_settings_merges:
  "(map_of (lines s) i = Some l \<longrightarrow>
      update_line_settings s i m =
        (Inr True, s\<lparr>heap := (heap s)(settings l := heap s (settings l) ++ m)\<rparr>)
      \<and> (m k = Some v \<longrightarrow> line_setting (snd (update_line_settings s i m)) i k = Some v)
      \<and> (m k = None \<longrightarrow>
           line_setting (snd (update_line_settings s i m)) i k = line_setting s i k)
      \<and> lines (snd (update_line_settings s i m)) = lines s
      \<and> (map_of (lines s) j = Some l' \<and> settings l' \<noteq> settings l \<longrightarrow>
           line_setting (snd (update_line_settings s i m)) j k = line_setting s j k))
   \<and> (map_of (lines s) i = None \<longrightarrow> update_line_settings s i m = (Inr False, s))"
  by (auto simp: update_line_settings_def lines_getitem_def has_key_map_of line_setting_def
        map_add_def split: option.split)

theorem update_line_settings_merges_witness:
  "map_of (lines shared_of_two) 1 = Some \<lparr>data = ([], []), settings = Suc 0\<rparr>
   \<and> map_of (lines shared_of_two) 2 = Some \<lparr>data = ([], []), settings = 2\<rparr>
   \<and> width_five ''line_width'' = Some (IntV 5)
   \<and> width_five ''label'' = None
   \<and> line_setting (snd (update_line_settings shared_of_two 1 width_five)) 1 ''line_width''
       = Some (IntV 5)
   \<and> line_setting (snd (update_line_settings shared_of_two 1 width_five)) 1 ''label''
       = line_setting shared_of_two 1 ''label''
   \<and> lines (snd (update_line_settings shared_of_two 1 width_five)) = lines shared_of_two
   \<and> line_setting (snd (update_line_settings shared_of_two 1 width_five)) 2 ''line_width''
       = line_setting shared_of_two 2 ''line_width''
   \<and> map_of (lines shared_of_two) 4 = None
   \<and> update_line_settings shared_of_two 4 width_five = (Inr False, shared_of_two)"
proof -
  have l1: "map_of (lines shared_of_two) 1 = Some \<lparr>data = ([], []), settings = Suc 0\<rparr>"
    and l2: "map_of (lines shared_of_two) 2 = Some \<lparr>data = ([], []), settings = 2\<rparr>"
    and l4: "map_of (lines shared_of_two) 4 = None"
    by (simp_all add: shared_of_two_def session_eval)
  have m1: "width_five ''line_width'' = Some (IntV 5)" and m2: "width_five ''label'' = None"
    by (simp_all add: width_five_def)
  have other: "settings \<lparr>data = ([], []), settings = 2\<rparr>
      \<noteq> settings \<lparr>data = ([]::series, []::series), settings = Suc 0\<rparr>"
    by simp
  from l1 l2 l4 m1 m2 other
    update_line_settings_merges [of shared_of_two 1 "\<lparr>data = ([], []), settings = Suc 0\<rparr>"
      width_five "''line_width''" "IntV 5" 2 "\<lparr>data = ([], []), settings = 2\<rparr>"]
    update_line_settings_merges [of shared_of_two 1 "\<lparr>data = ([], []), settings = Suc 0\<rparr>"
      width_five "''label''" "IntV 5" 2 "\<lparr>data = ([], []), settings = 2\<rparr>"]
    update_line_settings_merges [of shared_of_two 4 "\<lparr>data = ([], []), settings = Suc 0\<rparr>"
      width_five "''label''" "IntV 5" 2 "\<lparr>data = ([], []), settings = 2\<rparr>"]
  show ?thesis by blast
qed

text \<open>
  C6 as stated fails where two lines were added with the same settings dictionary:
  updating line 1 changes the width line 2 is drawn with.
\<close>

theorem update_line_settings_shared_counterexample:
  "has_key (lines shared_state) 1
   \<and> line_setting shared_state 2 ''line_width'' = Some (IntV 2)
   \<and> line_setting (snd (update_line_settings shared_state 1 width_five)) 2 ''line_width''
       = Some (IntV 5)"
  by (simp add: update_line_settings_def lines_getitem_def has_key_def line_setting_def
        shared_state_eq settings_literal_def width_five_def)

text \<open>
  C10: with the id present, every key of the argument is stored with its value in the
  line's settings, whatever the key is: the keys of the settings afterwards are the old
  keys and all the keys of the argument, so a key outside the six settings fields is added.
\<close>

theorem update_line_settings_any_key:
  "map_of (lines s) i = Some l \<Longrightarrow> m k = Some v \<Longrightarrow>
     fst (update_line_settings s i m) = Inr True
     \<and> line_setting (snd (update_line_settings s i m)) i k = Some v
     \<and> dom (heap (snd (update_line_settings s i m)) (settings l))
         = dom (heap s (settings l)) \<union> dom m"
  by (auto simp: update_line_settings_def lines_getitem_def has_key_map_of line_setting_def)

theorem update_line_settings_any_key_witness:
  "map_of (lines one_line_state) 1 = Some \<lparr>data = ([], []), settings = Suc 0\<rparr>
   \<and> zorder_three ''zorder'' = Some (IntV 3)
   \<and> line_setting one_line_state 1 ''zorder'' = None
   \<and> fst (update_line_settings one_line_state 1 zorder_three) = Inr True
   \<and> line_setting (snd (update_line_settings one_line_state 1 zorder_three)) 1 ''zorder''
       = Some (IntV 3)"
proof -
  have l: "map_of (lines one_line_state) 1 = Some \<lparr>data = ([], []), settings = Suc 0\<rparr>"
    by (simp add: one_line_state_eq)
  have m: "zorder_three ''zorder'' = Some (IntV 3)"
    by (simp add: zorder_three_def)
  have before: "line_setting one_line_state 1 ''zorder'' = None"
    by (simp add: line_setting_def one_line_state_eq settings_literal_def)
  from l m before
    update_line_settings_any_key [of one_line_state 1 "\<lparr>data = ([], []), settings = Suc 0\<rparr>"
      zorder_three "''zorder''" "IntV 3"]
  show ?thesis by blast
qed

section \<open>Redrawing\<close>

text \<open>
  What a failed load does, for every state and path: the call returns normally, the
  exception is shown, the axes are untouched, and the configured background is the path
  that was passed.
\<close>

lemma redraw_map_failed_load:
  "imread (case path of None \<Rightarrow> background_image s | Some p \<Rightarrow> p) = Inl e \<Longrightarrow>
     redraw_map imread s path =
       (Inr (),
        s\<lparr>background_image := (case path of None \<Rightarrow> background_image s | Some p \<Rightarrow> p),
          errors_shown := errors_shown s @ [e]\<rparr>)"
  by (cases path) (simp_all add: redraw_map_def)

text \<open>
  C3: with the default map drawn, \<^verbatim>\<open>redraw_map\<close> on the missing file \<^verbatim>\<open>missing.png\<close>
  returns normally and shows the error, but the configured background is then
  \<^verbatim>\<open>missing.png\<close> and no longer the default map: the previous background reference is
  not retained. The redraw that follows clears the axes, fails to load \<^verbatim>\<open>missing.png\<close>
  again, shows the error a second time and leaves no background image drawn.
\<close>

theorem redraw_map_failed_load_replaces_background:
  "load_default_only ''missing.png'' = Inl (OSError ''missing.png'')
   \<and> background_image (session_state load_default_only startup_session) = default_map
   \<and> map pixels (images (axes (session_state load_default_only startup_session)))
       = [''default map pixels'']
   \<and> fst (redraw_map load_default_only (session_state load_default_only startup_session)
            (Some ''missing.png'')) = Inr ()
   \<and> errors_shown (session_state load_default_only bad_map_session) = [OSError ''missing.png'']
   \<and> background_image (session_state load_default_only bad_map_session) = ''missing.png''
   \<and> ''missing.png'' \<noteq> default_map
   \<and> images (axes (session_state load_default_only bad_map_redrawn_session)) = []
   \<and> errors_shown (session_state load_default_only bad_map_redrawn_session)
       = [OSError ''missing.png'', OSError ''missing.png'']"
  by (simp add: startup_session_def bad_map_session_def bad_map_redrawn_session_def
        load_default_only_def session_eval redraw_plot_def redraw_map_def default_map_def
        cleared_axes_def)

lemma plot_args_label:
  "plot_args st i l = Inr call \<Longrightarrow> label call = label_prefix @ str_int i"
  by (auto simp: plot_args_def bind_err_def split: sum.splits)

lemma plot_lines_labels:
  "plot_lines h ls ax = (None, ax') \<Longrightarrow>
     map label (plotted ax') = map label (plotted ax) @ map (\<lambda>e. label_prefix @ str_int (fst e)) ls"
proof (induction ls arbitrary: ax)
  case Nil
  then show ?case by simp
next
  case (Cons e ls)
  obtain i l where e: "e = (i, l)" by (cases e)
  show ?case
  proof (cases "plot_args (h (settings l)) i l")
    case (Inl err)
    with Cons.prems e show ?thesis by simp
  next
    case (Inr call)
    with Cons.prems e
    have "plot_lines h ls (ax\<lparr>plotted := plotted ax @ [call]\<rparr>) = (None, ax')" by simp
    from Cons.IH [OF this] plot_args_label [OF Inr] e show ?thesis by simp
  qed
qed

lemma redraw_plot_labels:
  "fst (redraw_plot s) = Inr () \<Longrightarrow>
     legend (axes (snd (redraw_plot s))) = map (\<lambda>e. label_prefix @ str_int (fst e)) (lines s)"
proof -
  assume ok: "fst (redraw_plot s) = Inr ()"
  obtain r ax where p: "plot_lines (heap s) (lines s) cleared_axes = (r, ax)"
    by (cases "plot_lines (heap s) (lines s) cleared_axes")
  with ok have r: "r = None" by (cases r) (simp_all add: redraw_plot_def)
  from plot_lines_labels [of "heap s" "lines s" cleared_axes ax] p r
  have "map label (plotted ax) = map (\<lambda>e. label_prefix @ str_int (fst e)) (lines s)"
    by (simp add: cleared_axes_def)
  with p r show ?thesis by (simp add: redraw_plot_def)
qed

text \<open>
  C4: a line whose stored label is \<^verbatim>\<open>Orbit A\<close> is drawn with the legend entry made of
  the prefix and its id; the stored label is not used.
\<close>

theorem redraw_plot_ignores_label:
  "line_setting named_state 1 ''label'' = Some (StrV ''Orbit A'')
   \<and> fst (redraw_plot named_state) = Inr ()
   \<and> map label (plotted (axes (snd (redraw_plot named_state)))) = [label_prefix @ ''1'']
   \<and> legend (axes (snd (redraw_plot named_state))) = [label_prefix @ ''1'']"
  by (simp add: line_setting_def named_state_eq redraw_plot_def plot_args_def bind_err_def
        getitem_def greater_zero_def settings_literal_def name_orbit_def cleared_axes_def
        str_int_small)

text \<open>
  C5: the label stored by \<^verbatim>\<open>add_line\<close> without settings is the prefix followed by
  \<^verbatim>\<open>0\<close>, for the line that gets id 1 and for the line that gets id 2.
\<close>

theorem add_line_default_label:
  "fst (add_line init [] [] None) = 1
   \<and> line_setting (snd (add_line init [] [] None)) 1 ''label'' = Some (StrV (label_prefix @ ''0''))
   \<and> fst (add_line (snd (add_line init [] [] None)) [] [] None) = 2
   \<and> line_setting (snd (add_line (snd (add_line init [] [] None)) [] [] None)) 2 ''label''
       = Some (StrV (label_prefix @ ''0''))
   \<and> label_prefix @ ''0'' \<noteq> label_prefix @ str_int 1"
  by (simp add: add_line_def new_dict_def init_def has_key_def line_setting_def Let_def
        settings_literal_def str_int_small)

section \<open>The table reader on concrete texts\<close>

lemmas reader_eval =
  readTxtTable_def newline_def space_def tab_def lstrip_def rstrip_def strip_def
  py_float_def isdigit_def isalpha_def digits_val_def

text \<open>
  C2: on the example text of the specification the reader returns a first row holding
  \<open>1.0\<close> only: the token \<open>2.0\<close> is followed by the newline, and a token is stored only
  when a space or a tab follows it.
\<close>

theorem readTxtTable_spec_example:
  "readTxtTable spec_example = Inr [[Num 1], [Num 3, Num 4, Str ''extra'']]"
  by (simp add: spec_example_def reader_eval)

text \<open>
  C8: a line made of one tab is empty after trimming spaces and tabs on the left, and the
  reader returns an empty row for it.
\<close>

theorem readTxtTable_tab_line:
  "lstrip tab (lstrip space tab_line) = [newline] \<and> readTxtTable tab_line = Inr [[]]"
  by (simp add: tab_line_def reader_eval)

end
